theory Spec2Isabelle
  imports Main "HOL-Library.Sublist" "HOL-Library.Char_ord" "HOL-Library.List_Lexorder"
begin

section \<open>The flowhouse web frontend: query translation\<close>

text \<open>
  A shallow embedding of the frontend of flowhouse: the field resolver
  (\<open>resolveVirtualField\<close>, \<open>parseFieldName\<close>, \<open>resolveDictIfNecessary\<close>), the query
  builder (\<open>fieldsToQuery\<close>, \<open>timeFieldToTimestamp\<close>) and the two HTTP handlers
  \<open>QueryHandler\<close> and \<open>GetDictValues\<close>. Go strings are byte strings and are modelled as
  \<open>string\<close>; a Go \<open>(value, error)\<close> result is a sum with the error on the left.
\<close>

subsection \<open>Errors\<close>

text \<open>
  \<open>Errorf\<close> is an error made by \<open>fmt.Errorf\<close>, kept as its format and its operands;
  \<open>Wrap\<close> and \<open>Wrapf\<close> are \<open>errors.Wrap\<close> and \<open>errors.Wrapf\<close> of an inner error;
  \<open>ParseError\<close> is the error of \<open>time.Parse\<close>. \<open>IndexOutOfRange\<close> is the run-time panic
  of reading a slice beyond its length: it is not an error value of the program, and
  the functions below hand it on unchanged.
\<close>

datatype error =
    Errorf string "string list"
  | Wrap error string
  | Wrapf error string "string list"
  | ParseError
  | IndexOutOfRange

subsection \<open>The string routines of the Go library that the frontend calls\<close>

abbreviation sq :: char where
  "sq \<equiv> CHR 0x27"

text \<open>
  \<open>strings.Split(s, sep)\<close>: the pieces of \<open>s\<close> between the occurrences of \<open>sep\<close>, found
  from the left and not overlapping; with an empty separator the string is cut into its
  characters.
\<close>

function Split :: "string \<Rightarrow> string \<Rightarrow> string list" where
  "Split s sep =
     (if sep = [] then map (\<lambda>c. [c]) s
      else if prefix sep s then [] # Split (drop (length sep) s) sep
      else (case s of
              [] \<Rightarrow> [[]]
            | c # cs \<Rightarrow> (case Split cs sep of
                           [] \<Rightarrow> [[c]]
                         | p # ps \<Rightarrow> (c # p) # ps)))"
  by pat_completeness auto
termination
proof (relation "measure (\<lambda>(s, sep). length s)")
  show "wf (measure (\<lambda>(s, sep). length s))" by simp
next
  fix s sep :: string
  assume "sep \<noteq> []" and "prefix sep s"
  then have "length sep \<le> length s" and "sep \<noteq> []"
    by (simp_all add: prefix_length_le)
  then show "((drop (length sep) s, sep), (s, sep)) \<in> measure (\<lambda>(s, sep). length s)"
    by (cases sep) auto
next
  fix s sep :: string and c cs
  assume "s = c # cs"
  then show "((cs, sep), (s, sep)) \<in> measure (\<lambda>(s, sep). length s)"
    by simp
qed

declare Split.simps [simp del]

text \<open>\<open>strings.Join(elems, sep)\<close>.\<close>

fun Join :: "string list \<Rightarrow> string \<Rightarrow> string" where
  "Join [] sep = []"
| "Join [x] sep = x"
| "Join (x # y # ys) sep = x @ sep @ Join (y # ys) sep"

text \<open>\<open>strings.HasPrefix(s, prefix)\<close>.\<close>

definition HasPrefix :: "string \<Rightarrow> string \<Rightarrow> bool" where
  "HasPrefix s p = prefix p s"

text \<open>
  \<open>fmt.Sprintf\<close>. Where the source calls it with a format of its own and string or
  integer operands under \<open>%s\<close> and \<open>%d\<close>, the call is written out as the concatenation
  that it prints. In one place, \<open>resolveDictIfNecessary\<close>, the format is not fixed by the
  source: it is the expression template of a dictionary binding, read from the
  configuration, and may hold any verb, flag or width of the library. There the routine
  of the library is an argument, \<open>Sprintf\<close>, of the function and of the functions that
  call it: from a format and string operands to the text printed. What is proved holds
  for every such routine.
\<close>

type_synonym Formatter = "string \<Rightarrow> string list \<Rightarrow> string"

subsection \<open>The field resolver\<close>

text \<open>
  \<open>resolveVirtualField\<close>: the two prefix fields have no column of their own and are
  rendered from the address and the length columns.
\<close>

definition resolveVirtualField :: "string \<Rightarrow> string" where
  "resolveVirtualField f =
     (if f = ''src_ip_pfx''
        then ''concat(IPv6NumToString(src_ip_pfx_addr), '' @ [sq] @ ''/'' @ [sq]
               @ '', toString(src_ip_pfx_len))''
      else if f = ''dst_ip_pfx''
        then ''concat(IPv6NumToString(dst_ip_pfx_addr), '' @ [sq] @ ''/'' @ [sq]
               @ '', toString(dst_ip_pfx_len))''
      else f)"

text \<open>
  \<open>parseFieldName\<close>: the name is split at every \<open>__\<close>; the first piece is the field of
  the flows table, the second piece, if there is one, the field of the dictionary.
\<close>

definition parseFieldName :: "string \<Rightarrow> string \<times> string" where
  "parseFieldName name =
     (let parts = Split name ''__''
      in if length parts < 2 then (parts ! 0, [])
         else (parts ! 0, parts ! 1))"

text \<open>
  \<open>Dict\<close> connects a field with a dictionary; \<open>Dicts\<close> is the configured slice of them.
  The slice holds pointers in the source; every entry is taken to be allocated.
\<close>

record Dict =
  Field :: string
  Dict :: string
  Expr :: string
  Keys :: "string list"

type_synonym Dicts = "Dict list"

text \<open>\<open>getDict\<close>: the first entry for the field, \<open>None\<close> for the nil pointer.\<close>

fun getDict :: "Dicts \<Rightarrow> string \<Rightarrow> Dict option" where
  "getDict [] field = None"
| "getDict (x # d) field = (if Field x = field then Some x else getDict d field)"

text \<open>
  The ClickHouse gateway is a package outside the frontend; the frontend calls three of
  its methods, which are the fields of this record. \<open>Query\<close> returns the rows of a
  statement, of a type \<open>'rows\<close> that the frontend only hands on.
\<close>

record 'rows ClickHouseGateway =
  GetDatabaseName :: string
  Query :: "string \<Rightarrow> error + 'rows"
  chgw_GetDictValues :: "string \<Rightarrow> string \<Rightarrow> error + string list"

text \<open>\<open>Frontend\<close> is the web frontend service.\<close>

record 'rows Frontend =
  chgw :: "'rows ClickHouseGateway"
  dictCfgs :: Dicts

text \<open>
  \<open>resolveDictIfNecessary\<close> maps a field name to a dictionary lookup if the name has a
  dictionary part, and to the field itself otherwise.
\<close>

definition resolveDictIfNecessary :: "Formatter \<Rightarrow> 'rows Frontend \<Rightarrow> string \<Rightarrow> error + string" where
  "resolveDictIfNecessary Sprintf fe fieldName =
     (let (flowsFieldName, relatedFieldsName) = parseFieldName fieldName
      in if relatedFieldsName = [] then Inr flowsFieldName
         else (case getDict (dictCfgs fe) flowsFieldName of
                 None \<Rightarrow> Inl (Errorf ''Dict for field %s not found'' [fieldName])
               | Some d \<Rightarrow>
                   (let params = (if length (Keys d) = 0 then [flowsFieldName] else Keys d);
                        expr = Sprintf (Expr d) params
                    in Inr (''dictGet('' @ [sq] @ Dict d @ [sq] @ '', '' @ [sq]
                            @ relatedFieldsName @ [sq] @ '', '' @ expr @ '')''))))"

subsection \<open>Time strings\<close>

text \<open>
  \<open>time.Parse(time.RFC3339, value)\<close> of the Go library, followed by \<open>Unix()\<close>. The
  layout is \<open>2006-01-02T15:04:05Z07:00\<close>: a year of four digits, month and day of
  two digits, an hour of one or two digits, minute and second of two digits, an optional
  fraction of a second, and a zone that is \<open>Z\<close> or a signed \<open>hh:mm\<close>. The helpers carry
  the names they have in the library.
\<close>

definition isDigit :: "string \<Rightarrow> nat \<Rightarrow> bool" where
  "isDigit s i = (i < length s \<and> CHR ''0'' \<le> s ! i \<and> s ! i \<le> CHR ''9'')"

definition digitVal :: "char \<Rightarrow> nat" where
  "digitVal c = of_char c - 48"

definition getnum :: "string \<Rightarrow> bool \<Rightarrow> (nat \<times> string) option" where
  "getnum s fixed =
     (if \<not> isDigit s 0 then None
      else if \<not> isDigit s 1 then
        (if fixed then None else Some (digitVal (s ! 0), drop 1 s))
      else Some (digitVal (s ! 0) * 10 + digitVal (s ! 1), drop 2 s))"

definition atoi :: "string \<Rightarrow> nat option" where
  "atoi s =
     (if s \<noteq> [] \<and> list_all (\<lambda>c. CHR ''0'' \<le> c \<and> c \<le> CHR ''9'') s
      then Some (foldl (\<lambda>a c. 10 * a + digitVal c) 0 s) else None)"

definition skip :: "string \<Rightarrow> string \<Rightarrow> string option" where
  "skip v p = (if prefix p v then Some (drop (length p) v) else None)"

definition isLeap :: "nat \<Rightarrow> bool" where
  "isLeap year = (year mod 4 = 0 \<and> (year mod 100 \<noteq> 0 \<or> year mod 400 = 0))"

definition daysIn :: "nat \<Rightarrow> nat \<Rightarrow> nat" where
  "daysIn m year =
     (if m = 2 then (if isLeap year then 29 else 28)
      else if m = 4 \<or> m = 6 \<or> m = 9 \<or> m = 11 then 30 else 31)"

text \<open>
  \<open>Date\<close>: the seconds from 1970-01-01T00:00:00Z to the given civil time in UTC, in
  the proleptic Gregorian calendar, for a month from 1 to 12.
\<close>

definition leapsThrough :: "int \<Rightarrow> int" where
  "leapsThrough n = n div 4 - n div 100 + n div 400"

definition daysSinceEpoch :: "nat \<Rightarrow> int" where
  "daysSinceEpoch year =
     365 * (int year - 1970) + (leapsThrough (int year - 1) - leapsThrough 1969)"

definition Date :: "nat \<Rightarrow> nat \<Rightarrow> nat \<Rightarrow> nat \<Rightarrow> nat \<Rightarrow> nat \<Rightarrow> int" where
  "Date year m day hour mi sec =
     (daysSinceEpoch year + int (sum_list (map (\<lambda>k. daysIn k year) [1..<m])) + (int day - 1))
       * 86400
     + int hour * 3600 + int mi * 60 + int sec"

text \<open>The fraction of a second that may follow the seconds: a period or a comma and digits.\<close>

definition skipFraction :: "string \<Rightarrow> string" where
  "skipFraction v =
     (if 2 \<le> length v \<and> (v ! 0 = CHR ''.'' \<or> v ! 0 = CHR '','') \<and> isDigit v 1
      then dropWhile (\<lambda>c. CHR ''0'' \<le> c \<and> c \<le> CHR ''9'') (drop 2 v)
      else v)"

text \<open>The zone: the offset east of UTC in seconds and the rest of the input.\<close>

definition parseZone :: "string \<Rightarrow> (int \<times> string) option" where
  "parseZone v =
     (if 1 \<le> length v \<and> v ! 0 = CHR ''Z'' then Some (0, drop 1 v)
      else if length v < 6 then None
      else if v ! 3 \<noteq> CHR '':'' then None
      else Option.bind (getnum (take 2 (drop 1 v)) True) (\<lambda>(hr, _).
           Option.bind (getnum (take 2 (drop 4 v)) True) (\<lambda>(mm, _).
           if 24 < hr \<or> 60 < mm then None
           else if v ! 0 = CHR ''+'' then Some (int ((hr * 60 + mm) * 60), drop 6 v)
           else if v ! 0 = CHR ''-'' then Some (- int ((hr * 60 + mm) * 60), drop 6 v)
           else None)))"

text \<open>The date: year, month and day, with the range test of the month.\<close>

definition parseDate :: "string \<Rightarrow> ((nat \<times> nat \<times> nat) \<times> string) option" where
  "parseDate v0 =
     (if length v0 < 4 \<or> \<not> isDigit v0 0 then None
      else Option.bind (atoi (take 4 v0)) (\<lambda>year.
           Option.bind (skip (drop 4 v0) ''-'') (\<lambda>v1.
           Option.bind (getnum v1 True) (\<lambda>(month, v2).
           if month \<le> 0 \<or> 12 < month then None
           else Option.bind (skip v2 ''-'') (\<lambda>v3.
                Option.bind (getnum v3 True) (\<lambda>(day, v4).
                Some ((year, month, day), v4)))))))"

text \<open>The time of day: hour, minute and second, each with its range test.\<close>

definition parseClock :: "string \<Rightarrow> ((nat \<times> nat \<times> nat) \<times> string) option" where
  "parseClock v5 =
     Option.bind (getnum v5 False) (\<lambda>(hour, v6).
     if 24 \<le> hour then None
     else Option.bind (skip v6 '':'') (\<lambda>v7.
          Option.bind (getnum v7 True) (\<lambda>(mi, v8).
          if 60 \<le> mi then None
          else Option.bind (skip v8 '':'') (\<lambda>v9.
               Option.bind (getnum v9 True) (\<lambda>(sec, v10).
               if 60 \<le> sec then None
               else Some ((hour, mi, sec), v10))))))"

text \<open>
  The whole layout. Text left over after the zone is an error, and the day is tested
  against the length of its month once everything is read.
\<close>

definition parseLayout :: "string \<Rightarrow> int option" where
  "parseLayout v0 =
     Option.bind (parseDate v0) (\<lambda>((year, month, day), v4).
     Option.bind (skip v4 ''T'') (\<lambda>v5.
     Option.bind (parseClock v5) (\<lambda>((hour, mi, sec), v10).
     Option.bind (parseZone (skipFraction v10)) (\<lambda>(zoneOffset, v11).
     if v11 \<noteq> [] then None
     else if day < 1 \<or> daysIn month year < day then None
     else Some (Date year month day hour mi sec - zoneOffset)))))"

definition Parse_RFC3339 :: "string \<Rightarrow> error + int" where
  "Parse_RFC3339 v = (case parseLayout v of None \<Rightarrow> Inl ParseError | Some t \<Rightarrow> Inr t)"

text \<open>
  \<open>timeFieldToTimestamp\<close>: the seconds and the zone \<open>+02:00\<close> are appended to the
  string of the form, and the result is parsed.
\<close>

definition timeFieldToTimestamp :: "string \<Rightarrow> error + int" where
  "timeFieldToTimestamp v =
     (let v' = v @ '':00+02:00''
      in case Parse_RFC3339 v' of
           Inl err \<Rightarrow> Inl (Wrapf err ''Unable to parse %q'' [v'])
         | Inr t \<Rightarrow> Inr t)"

subsection \<open>The query builder\<close>

text \<open>
  \<open>url.Values\<close> is a Go map from a parameter name to the list of its values. It is an
  association list here: the names with their values in the order in which the loop over
  the map meets them, which the language leaves open. A name that is absent reads as
  the empty list.
\<close>

type_synonym Values = "(string \<times> string list) list"

definition exists :: "Values \<Rightarrow> string \<Rightarrow> bool" where
  "exists flds k = (map_of flds k \<noteq> None)"

definition get :: "Values \<Rightarrow> string \<Rightarrow> string list" where
  "get flds k = (case map_of flds k of None \<Rightarrow> [] | Some vs \<Rightarrow> vs)"

text \<open>The first element of a slice, \<open>xs[0]\<close>, which panics on the empty slice.\<close>

definition first :: "string list \<Rightarrow> error + string" where
  "first xs = (case xs of [] \<Rightarrow> Inl IndexOutOfRange | x # _ \<Rightarrow> Inr x)"

text \<open>The decimal digits that \<open>%d\<close> prints for an integer.\<close>

definition digit :: "nat \<Rightarrow> char" where
  "digit n = ''0123456789'' ! n"

fun digits :: "nat \<Rightarrow> string" where
  "digits n = (if n < 10 then [digit n] else digits (n div 10) @ [digit (n mod 10)])"

declare digits.simps [simp del]

definition itoa :: "int \<Rightarrow> string" where
  "itoa i = (if i < 0 then CHR ''-'' # digits (nat (- i)) else digits (nat i))"

text \<open>The loop over the breakdown fields that fills the select list.\<close>

fun selectLoop ::
  "Formatter \<Rightarrow> 'rows Frontend \<Rightarrow> string list \<Rightarrow> string list \<Rightarrow> string list" where
  "selectLoop Sprintf fe selectFieldList [] = selectFieldList"
| "selectLoop Sprintf fe selectFieldList (fieldName # rest) =
     (let resolvedFieldName = resolveVirtualField fieldName
      in case resolveDictIfNecessary Sprintf fe resolvedFieldName of
           Inl err \<Rightarrow> selectLoop Sprintf fe selectFieldList rest
         | Inr statement \<Rightarrow>
             selectLoop Sprintf fe (selectFieldList @ [statement @ '' as '' @ fieldName]) rest)"

text \<open>
  The loop over the names of all parameters that fills the conditions. \<open>conditionFor\<close>
  is one pass of its body: the condition that the pass appends, or \<open>None\<close> when the pass
  goes on to the next name without appending. The name is overwritten by its resolved
  form before the values are read.
\<close>

definition conditionFor ::
  "Formatter \<Rightarrow> 'rows Frontend \<Rightarrow> Values \<Rightarrow> string \<Rightarrow> string option" where
  "conditionFor Sprintf fe flds fieldName0 =
     (if fieldName0 = ''breakdown'' \<or> fieldName0 = ''time_start'' \<or> fieldName0 = ''time_end''
         \<or> HasPrefix fieldName0 ''filter_field''
      then None
      else
        (let fieldName = resolveVirtualField fieldName0
         in case resolveDictIfNecessary Sprintf fe fieldName of
              Inl err \<Rightarrow> None
            | Inr statement \<Rightarrow>
                if length (get flds fieldName) = 1
                then Some (statement @ '' = '' @ [sq] @ get flds fieldName ! 0 @ [sq])
                else
                  (let values = map (\<lambda>v. [sq] @ v @ [sq]) (get flds fieldName)
                   in Some (statement @ '' IN ('' @ Join values '', '' @ '')''))))"

fun conditionsLoop ::
  "Formatter \<Rightarrow> 'rows Frontend \<Rightarrow> Values \<Rightarrow> string list \<Rightarrow> string list \<Rightarrow> string list"
  where
  "conditionsLoop Sprintf fe flds conditions [] = conditions"
| "conditionsLoop Sprintf fe flds conditions (fieldName # rest) =
     (case conditionFor Sprintf fe flds fieldName of
        None \<Rightarrow> conditionsLoop Sprintf fe flds conditions rest
      | Some c \<Rightarrow> conditionsLoop Sprintf fe flds (conditions @ [c]) rest)"

definition selectFieldList :: "Formatter \<Rightarrow> 'rows Frontend \<Rightarrow> Values \<Rightarrow> string list" where
  "selectFieldList Sprintf fe flds =
     selectLoop Sprintf fe [''timestamp as t''] (get flds ''breakdown'')
       @ [''sum(size * samplerate) * 8 / 10'']"

definition conditions ::
  "Formatter \<Rightarrow> 'rows Frontend \<Rightarrow> Values \<Rightarrow> int \<Rightarrow> int \<Rightarrow> string list" where
  "conditions Sprintf fe flds start end =
     conditionsLoop Sprintf fe flds
       [''t BETWEEN toDateTime('' @ itoa start @ '') AND toDateTime('' @ itoa end @ '')'']
       (map fst flds)"

definition groupBy :: "Values \<Rightarrow> string list" where
  "groupBy flds =
     (case map_of flds ''breakdown'' of
        None \<Rightarrow> [''t'']
      | Some breakdown \<Rightarrow> [''t''] @ breakdown)"

definition fieldsToQuery :: "Formatter \<Rightarrow> 'rows Frontend \<Rightarrow> Values \<Rightarrow> error + string" where
  "fieldsToQuery Sprintf fe flds =
     (if \<not> exists flds ''breakdown'' then Inl (Errorf ''No breakdown set'' [])
      else if \<not> exists flds ''time_start'' then Inl (Errorf ''No start time given'' [])
      else if \<not> exists flds ''time_end'' then Inl (Errorf ''No end time given'' [])
      else
        (case first (get flds ''time_start'') of
           Inl p \<Rightarrow> Inl p
         | Inr ts \<Rightarrow>
          (case timeFieldToTimestamp ts of
             Inl err \<Rightarrow> Inl (Wrap err ''Unable to parse time'')
           | Inr start \<Rightarrow>
            (case first (get flds ''time_end'') of
               Inl p \<Rightarrow> Inl p
             | Inr te \<Rightarrow>
              (case timeFieldToTimestamp te of
                 Inl err \<Rightarrow> Inl (Wrap err ''Unable to parse time'')
               | Inr end \<Rightarrow>
                   Inr (''SELECT '' @ Join (selectFieldList Sprintf fe flds) '', ''
                        @ '' FROM '' @ GetDatabaseName (chgw fe) @ ''.flows WHERE ''
                        @ Join (conditions Sprintf fe flds start end) '' AND ''
                        @ '' GROUP BY '' @ Join (groupBy flds) '', ''
                        @ '' ORDER BY t''))))))"

subsection \<open>The handlers\<close>

text \<open>
  Of a request the handlers read the parsed query parameters, \<open>r.URL.Query()\<close>, and the
  path. A response is the status and the body that the handler has written when it
  returns; a handler that writes a body without a status answers 200. \<open>Aborted\<close> is the
  handler ending in a panic. The body is either bytes or, for the dictionary values, the
  list of strings that \<open>json.Marshal\<close> encodes as an array.
\<close>

record Request =
  URL_Query :: Values
  URL_Path :: string

datatype body = Bytes string | JSONArray "string list"

datatype response = Response nat body | Aborted

abbreviation StatusOK :: nat where "StatusOK \<equiv> 200"
abbreviation StatusBadRequest :: nat where "StatusBadRequest \<equiv> 400"
abbreviation StatusInternalServerError :: nat where "StatusInternalServerError \<equiv> 500"

text \<open>
  \<open>processQuery\<close>. Its second half reads the rows of the gateway into a result; the
  type of the result and the routines that fill it are not part of the frontend file, so
  that half is the argument \<open>scan\<close>. The nil result is \<open>None\<close>.
\<close>

definition processQuery ::
  "Formatter \<Rightarrow> 'rows Frontend \<Rightarrow> ('rows \<Rightarrow> error + 'res) \<Rightarrow> Request
     \<Rightarrow> error + 'res option" where
  "processQuery Sprintf fe scan r =
     (if length (URL_Query r) = 0 then Inr None
      else case fieldsToQuery Sprintf fe (URL_Query r) of
             Inl IndexOutOfRange \<Rightarrow> Inl IndexOutOfRange
           | Inl err \<Rightarrow> Inl (Wrap err ''Unable to generate SQL query'')
           | Inr query \<Rightarrow>
               (case Query (chgw fe) query of
                  Inl err \<Rightarrow> Inl (Wrap err ''Query failed'')
                | Inr rows \<Rightarrow>
                    (case scan rows of
                       Inl err \<Rightarrow> Inl err
                     | Inr res \<Rightarrow> Inr (Some res))))"

text \<open>
  \<open>QueryHandler\<close> handles query requests. \<open>csv\<close> is the method of the result that
  writes the series; it is taken to fail before it has written anything.
\<close>

definition QueryHandler ::
  "Formatter \<Rightarrow> 'rows Frontend \<Rightarrow> ('rows \<Rightarrow> error + 'res) \<Rightarrow> ('res \<Rightarrow> error + string)
     \<Rightarrow> Request \<Rightarrow> response"
  where
  "QueryHandler Sprintf fe scan csv r =
     (case processQuery Sprintf fe scan r of
        Inl IndexOutOfRange \<Rightarrow> Aborted
      | Inl err \<Rightarrow> Response StatusInternalServerError (Bytes [])
      | Inr None \<Rightarrow> Response StatusInternalServerError (Bytes [])
      | Inr (Some res) \<Rightarrow>
          (case csv res of
             Inl err \<Rightarrow> Response StatusInternalServerError (Bytes [])
           | Inr out \<Rightarrow> Response StatusOK (Bytes out)))"

text \<open>\<open>getFieldsDictName\<close>: the dictionary of the first binding of the field, or the empty string.\<close>

fun getFieldsDictName_loop :: "Dicts \<Rightarrow> string \<Rightarrow> string" where
  "getFieldsDictName_loop [] fieldName = []"
| "getFieldsDictName_loop (d # ds) fieldName =
     (if Field d = fieldName then Dict d else getFieldsDictName_loop ds fieldName)"

definition getFieldsDictName :: "'rows Frontend \<Rightarrow> string \<Rightarrow> string" where
  "getFieldsDictName fe fieldName = getFieldsDictName_loop (dictCfgs fe) fieldName"

definition parseDictValueRequest :: "string \<Rightarrow> error + string \<times> string" where
  "parseDictValueRequest input =
     (let parts = Split input ''__''
      in if length parts \<noteq> 2 then Inl (Errorf ''Invalid format'' [])
         else Inr (parts ! 0, parts ! 1))"

text \<open>\<open>json.Marshal\<close> of a slice of strings: it has no input on which it fails.\<close>

definition json_Marshal :: "string list \<Rightarrow> error + body" where
  "json_Marshal res = Inr (JSONArray res)"

text \<open>
  \<open>GetDictValues\<close> gets the values of a column of a dictionary. \<open>sort.Slice\<close> with the
  order of Go strings, which compares bytes, is \<open>sort\<close> on the lexicographic order of
  \<open>string\<close>: strings that compare equal are the same string, so the sorted slice is
  unique.
\<close>

definition GetDictValues :: "'rows Frontend \<Rightarrow> Request \<Rightarrow> response" where
  "GetDictValues fe r =
     (let parts = Split (URL_Path r) ''/''
      in if length parts \<noteq> 3 then Response StatusBadRequest (Bytes [])
         else case parseDictValueRequest (parts ! 2) of
                Inl err \<Rightarrow> Response StatusBadRequest (Bytes [])
              | Inr (fieldName, column) \<Rightarrow>
                  (let dict = getFieldsDictName fe fieldName
                   in if dict = [] then Response StatusBadRequest (Bytes [])
                      else case chgw_GetDictValues (chgw fe) dict column of
                             Inl err \<Rightarrow> Response StatusInternalServerError (Bytes [])
                           | Inr values \<Rightarrow>
                               (let res = sort (filter (\<lambda>v. v \<noteq> []) values)
                                in case json_Marshal res of
                                     Inl err \<Rightarrow> Response StatusInternalServerError (Bytes [])
                                   | Inr j \<Rightarrow> Response StatusOK j)))"

subsection \<open>A configuration to run the definitions on\<close>

text \<open>
  A formatter to run the definitions with. The only template of the configuration
  below is text around the verb \<open>%s\<close>, with one operand; on text and \<open>%s\<close> with operands
  enough this formatter prints what \<open>fmt.Sprintf\<close> prints, each \<open>%s\<close> replaced by the next
  operand. It stands for nothing else of the library: anything else is copied as it is.
\<close>

fun example_Sprintf :: Formatter where
  "example_Sprintf [] operands = []"
| "example_Sprintf [c] operands = [c]"
| "example_Sprintf (c # v # f) operands =
     (if c = CHR ''%'' \<and> v = CHR ''s'' \<and> operands \<noteq> []
      then hd operands @ example_Sprintf f (tl operands)
      else c # example_Sprintf (v # f) operands)"

text \<open>
  A frontend with one dictionary binding, of the field \<open>src_asn\<close>, whose gateway knows the
  columns \<open>name\<close> and \<open>country\<close> of every dictionary and fails on any other column.
\<close>

definition example_frontend :: "unit Frontend" where
  "example_frontend =
     \<lparr>chgw = \<lparr>GetDatabaseName = ''flows'',
              Query = (\<lambda>q. Inr ()),
              chgw_GetDictValues =
                (\<lambda>d c. if c = ''name'' then Inr [''b'', ''a'', [], ''a'']
                       else if c = ''country'' then Inr [''de'', [], ''at'']
                       else Inl (Errorf ''no column %s'' [c]))\<rparr>,
      dictCfgs = [\<lparr>Field = ''src_asn'', Dict = ''asns'', Expr = ''toUInt64(%s)'', Keys = []\<rparr>]\<rparr>"

section \<open>Properties\<close>

subsection \<open>Splitting\<close>

lemma Split_Nil: "sep \<noteq> [] \<Longrightarrow> Split [] sep = [[]]"
  by (subst Split.simps) simp

lemma Split_prefix:
  "sep \<noteq> [] \<Longrightarrow> prefix sep s \<Longrightarrow> Split s sep = [] # Split (drop (length sep) s) sep"
  by (subst Split.simps) simp

lemma Split_Cons:
  "sep \<noteq> [] \<Longrightarrow> \<not> prefix sep (c # cs) \<Longrightarrow>
   Split (c # cs) sep = (case Split cs sep of [] \<Rightarrow> [[c]] | p # ps \<Rightarrow> (c # p) # ps)"
  by (subst Split.simps) simp

text \<open>A split at a separator that is not empty has at least one piece.\<close>

lemma Split_not_Nil: "sep \<noteq> [] \<Longrightarrow> Split s sep \<noteq> []"
proof (induction s)
  case Nil
  then show ?case by (simp add: Split_Nil)
next
  case (Cons c cs)
  then show ?case
    by (cases "prefix sep (c # cs)") (simp_all add: Split_prefix Split_Cons split: list.splits)
qed

text \<open>A string in which the separator does not occur is its own single piece.\<close>

lemma Split_no_sep: "sep \<noteq> [] \<Longrightarrow> \<not> sublist sep s \<Longrightarrow> Split s sep = [s]"
proof (induction s)
  case Nil
  then show ?case by (simp add: Split_Nil)
next
  case (Cons c cs)
  then have np: "\<not> prefix sep (c # cs)" and ns: "\<not> sublist sep cs"
    by (auto simp: sublist_Cons_right)
  with Cons show ?case by (simp add: Split_Cons)
qed

lemma prefix_into_butlast:
  assumes "sep \<noteq> []" "b \<noteq> []" "prefix sep (b @ sep @ rest)"
  shows "prefix sep (b @ butlast sep)"
proof -
  have eq: "b @ sep @ rest = (b @ butlast sep) @ (last sep # rest)"
    using assms(1) by simp
  have "length sep \<le> length (b @ butlast sep)"
    using assms(1,2) by (cases b) simp_all
  with assms(3) show ?thesis
    unfolding eq by (metis prefix_length_prefix prefixI)
qed

text \<open>
  The first piece ends at the leftmost separator: when no occurrence of the separator
  starts inside \<open>b\<close>, splitting \<open>b @ sep @ rest\<close> gives \<open>b\<close> and then the pieces of
  \<open>rest\<close>.
\<close>

lemma Split_first:
  "sep \<noteq> [] \<Longrightarrow> \<not> sublist sep (b @ butlast sep) \<Longrightarrow>
   Split (b @ sep @ rest) sep = b # Split rest sep"
proof (induction b)
  case Nil
  then show ?case by (simp add: Split_prefix)
next
  case (Cons c b)
  have np: "\<not> prefix sep ((c # b) @ sep @ rest)"
  proof
    assume "prefix sep ((c # b) @ sep @ rest)"
    then have "prefix sep ((c # b) @ butlast sep)"
      using Cons.prems(1) prefix_into_butlast by blast
    then show False using Cons.prems(2) by (auto simp: sublist_Cons_right)
  qed
  have "\<not> sublist sep (b @ butlast sep)"
    using Cons.prems(2) by (auto simp: sublist_Cons_right)
  with Cons np show ?case by (simp add: Split_Cons)
qed

subsection \<open>Parsing a field name\<close>

lemma parseFieldName_plain: "\<not> sublist ''__'' name \<Longrightarrow> parseFieldName name = (name, [])"
  by (simp add: parseFieldName_def Split_no_sep)

lemma parseFieldName_one:
  assumes "\<not> sublist ''__'' (b @ ''_'')" "\<not> sublist ''__'' s"
  shows "parseFieldName (b @ ''__'' @ s) = (b, s)"
proof -
  have "Split (b @ ''__'' @ s) ''__'' = b # Split s ''__''"
    using assms(1) by (intro Split_first) simp_all
  also have "Split s ''__'' = [s]" using assms(2) by (simp add: Split_no_sep)
  finally show ?thesis by (simp add: parseFieldName_def)
qed

lemma parseFieldName_two:
  assumes "\<not> sublist ''__'' (b @ ''_'')" "\<not> sublist ''__'' (s @ ''_'')"
  shows "parseFieldName (b @ ''__'' @ s @ ''__'' @ t) = (b, s)"
proof -
  have "Split (b @ ''__'' @ s @ ''__'' @ t) ''__'' = b # Split (s @ ''__'' @ t) ''__''"
    using assms(1) by (intro Split_first) simp_all
  also have "Split (s @ ''__'' @ t) ''__'' = s # Split t ''__''"
    using assms(2) by (intro Split_first) simp_all
  finally show ?thesis by (simp add: parseFieldName_def)
qed

lemma resolveVirtualField_sep: "sublist ''__'' f \<Longrightarrow> resolveVirtualField f = f"
  by (auto simp: resolveVirtualField_def sublist_Cons_right)

text \<open>
  C3, as the specification states it, fails: for the name \<open>a__b__c\<close> the subfield is
  not the whole remainder \<open>b__c\<close> after the first separator but only \<open>b\<close>, the piece
  between the first and the second separator.
\<close>

theorem parseFieldName_remainder_counterexample:
  "parseFieldName ''a__b__c'' = (''a'', ''b'') \<and> parseFieldName ''a__b__c'' \<noteq> (''a'', ''b__c'')"
  by (simp add: parseFieldName_def Split.simps)

text \<open>
  C3, amended: a name without \<open>__\<close> parses as a plain field with an empty subfield. In
  a name with a separator the base field is the text before the first \<open>__\<close>; the subfield
  is the whole remainder when the remainder holds no further \<open>__\<close>, and otherwise only
  the text between the first and the second \<open>__\<close>. That the separator written out is the
  first one of the name is the hypothesis that \<open>__\<close> does not occur in the text before
  it extended by one underscore.
\<close>

theorem parseFieldName_pieces:
  "(\<not> sublist ''__'' name \<longrightarrow> parseFieldName name = (name, []))
   \<and> (\<not> sublist ''__'' (b @ ''_'') \<and> \<not> sublist ''__'' s
        \<longrightarrow> parseFieldName (b @ ''__'' @ s) = (b, s))
   \<and> (\<not> sublist ''__'' (b @ ''_'') \<and> \<not> sublist ''__'' (s @ ''_'')
        \<longrightarrow> parseFieldName (b @ ''__'' @ s @ ''__'' @ t) = (b, s))"
  using parseFieldName_plain parseFieldName_one parseFieldName_two by blast

theorem parseFieldName_pieces_witness:
  "parseFieldName ''src_asn'' = (''src_asn'', [])
   \<and> parseFieldName ''a__b'' = (''a'', ''b'')
   \<and> parseFieldName ''a__b__c'' = (''a'', ''b'')"
  using parseFieldName_pieces [of "''src_asn''" "''a''" "''b''" "''c''"]
  by (simp add: sublist_Cons_right)

subsection \<open>Resolving a field\<close>

text \<open>
  C9: a field name that holds no \<open>__\<close> and is neither \<open>src_ip_pfx\<close> nor \<open>dst_ip_pfx\<close>
  resolves, through \<open>resolveVirtualField\<close> and then \<open>resolveDictIfNecessary\<close>, to itself,
  without an error, whatever the dictionary bindings are.
\<close>

theorem resolve_plain_field:
  assumes "f \<noteq> ''src_ip_pfx''" and "f \<noteq> ''dst_ip_pfx''" and "\<not> sublist ''__'' f"
  shows "resolveDictIfNecessary Sprintf fe (resolveVirtualField f) = Inr f"
  using assms by (simp add: resolveVirtualField_def resolveDictIfNecessary_def parseFieldName_plain)

theorem resolve_plain_field_witness:
  "resolveDictIfNecessary example_Sprintf example_frontend (resolveVirtualField ''src_asn'') = Inr ''src_asn''"
  using resolve_plain_field
    [where f = "''src_asn''" and fe = example_frontend and Sprintf = example_Sprintf]
  by (simp add: sublist_Cons_right)

lemma resolveDictIfNecessary_bound:
  assumes "parseFieldName name = (base, attr)" and "getDict (dictCfgs fe) base = Some d"
  shows "resolveDictIfNecessary Sprintf fe name =
           (if attr = [] then Inr base
            else Inr (''dictGet('' @ [sq] @ Dict d @ [sq] @ '', '' @ [sq] @ attr @ [sq] @ '', ''
                      @ Sprintf (Expr d) (if Keys d = [] then [base] else Keys d) @ '')''))"
  using assms by (simp add: resolveDictIfNecessary_def)

text \<open>
  C5, as the specification states it, fails on two kinds of composite names whose base
  \<open>src_asn\<close> has a binding: in \<open>src_asn__name__x\<close> the attribute of the lookup is
  \<open>name\<close>, not the whole \<open>name__x\<close> after the base, and \<open>src_asn__\<close> resolves to the
  plain field \<open>src_asn\<close>, without a lookup.
\<close>

theorem resolve_composite_field_counterexample:
  "resolveDictIfNecessary example_Sprintf example_frontend (resolveVirtualField ''src_asn__name__x'')
     = Inr (''dictGet('' @ [sq] @ ''asns'' @ [sq] @ '', '' @ [sq] @ ''name'' @ [sq]
            @ '', toUInt64(src_asn))'')
   \<and> resolveDictIfNecessary example_Sprintf example_frontend (resolveVirtualField ''src_asn__'')
     = Inr ''src_asn''"
  by (simp add: resolveDictIfNecessary_def resolveVirtualField_def parseFieldName_def Split.simps
      example_frontend_def)

text \<open>
  C5, amended: for every composite name \<open>base__sub\<close>, the separator written out being
  the first of the name, whose \<open>base\<close> has a dictionary binding \<open>d\<close>, the attribute is
  \<open>sub\<close> when \<open>sub\<close> holds no further \<open>__\<close>, and otherwise the part of \<open>sub\<close> before its
  first \<open>__\<close>. When the attribute is not empty, resolution returns the lookup
  \<open>dictGet('<dictionary of d>', '<attribute>', <key>)\<close>, where the key is what
  \<open>fmt.Sprintf\<close> prints for the expression template of \<open>d\<close> with the configured keys of
  \<open>d\<close>, or with \<open>base\<close> alone when no keys are configured. When the attribute is empty,
  resolution returns \<open>base\<close> itself and no lookup. This holds for every formatter.
\<close>

theorem resolve_composite_field:
  "(\<not> sublist ''__'' (base @ ''_'') \<and> \<not> sublist ''__'' sub
      \<and> getDict (dictCfgs fe) base = Some d
    \<longrightarrow> resolveDictIfNecessary Sprintf fe (resolveVirtualField (base @ ''__'' @ sub)) =
          (if sub = [] then Inr base
           else Inr (''dictGet('' @ [sq] @ Dict d @ [sq] @ '', '' @ [sq] @ sub @ [sq] @ '', ''
                     @ Sprintf (Expr d) (if Keys d = [] then [base] else Keys d) @ '')'')))
   \<and> (\<not> sublist ''__'' (base @ ''_'') \<and> \<not> sublist ''__'' (sub @ ''_'')
      \<and> getDict (dictCfgs fe) base = Some d
    \<longrightarrow> resolveDictIfNecessary Sprintf fe
          (resolveVirtualField (base @ ''__'' @ sub @ ''__'' @ t)) =
          (if sub = [] then Inr base
           else Inr (''dictGet('' @ [sq] @ Dict d @ [sq] @ '', '' @ [sq] @ sub @ [sq] @ '', ''
                     @ Sprintf (Expr d) (if Keys d = [] then [base] else Keys d) @ '')'')))"
proof (intro conjI impI)
  assume h: "\<not> sublist ''__'' (base @ ''_'') \<and> \<not> sublist ''__'' sub
      \<and> getDict (dictCfgs fe) base = Some d"
  have "sublist ''__'' (base @ ''__'' @ sub)"
    by (metis sublist_appendI)
  then have v: "resolveVirtualField (base @ ''__'' @ sub) = base @ ''__'' @ sub"
    by (rule resolveVirtualField_sep)
  have "parseFieldName (base @ ''__'' @ sub) = (base, sub)"
    using h parseFieldName_one [of base sub] by blast
  then show "resolveDictIfNecessary Sprintf fe (resolveVirtualField (base @ ''__'' @ sub)) =
          (if sub = [] then Inr base
           else Inr (''dictGet('' @ [sq] @ Dict d @ [sq] @ '', '' @ [sq] @ sub @ [sq] @ '', ''
                     @ Sprintf (Expr d) (if Keys d = [] then [base] else Keys d) @ '')''))"
    unfolding v using h by (intro resolveDictIfNecessary_bound) simp_all
next
  assume h: "\<not> sublist ''__'' (base @ ''_'') \<and> \<not> sublist ''__'' (sub @ ''_'')
      \<and> getDict (dictCfgs fe) base = Some d"
  have "sublist ''__'' (base @ ''__'' @ sub @ ''__'' @ t)"
    by (metis sublist_appendI)
  then have v: "resolveVirtualField (base @ ''__'' @ sub @ ''__'' @ t)
                  = base @ ''__'' @ sub @ ''__'' @ t"
    by (rule resolveVirtualField_sep)
  have "parseFieldName (base @ ''__'' @ sub @ ''__'' @ t) = (base, sub)"
    using h parseFieldName_two [of base sub t] by blast
  then show "resolveDictIfNecessary Sprintf fe
          (resolveVirtualField (base @ ''__'' @ sub @ ''__'' @ t)) =
          (if sub = [] then Inr base
           else Inr (''dictGet('' @ [sq] @ Dict d @ [sq] @ '', '' @ [sq] @ sub @ [sq] @ '', ''
                     @ Sprintf (Expr d) (if Keys d = [] then [base] else Keys d) @ '')''))"
    unfolding v using h by (intro resolveDictIfNecessary_bound) simp_all
qed

theorem resolve_composite_field_witness:
  "resolveDictIfNecessary example_Sprintf example_frontend (resolveVirtualField ''src_asn__name'')
     = Inr (''dictGet('' @ [sq] @ ''asns'' @ [sq] @ '', '' @ [sq] @ ''name'' @ [sq]
            @ '', toUInt64(src_asn))'')
   \<and> resolveDictIfNecessary example_Sprintf example_frontend (resolveVirtualField ''src_asn__'')
     = Inr ''src_asn''
   \<and> resolveDictIfNecessary example_Sprintf example_frontend
       (resolveVirtualField ''src_asn__name__x'')
     = Inr (''dictGet('' @ [sq] @ ''asns'' @ [sq] @ '', '' @ [sq] @ ''name'' @ [sq]
            @ '', toUInt64(src_asn))'')"
  using
    resolve_composite_field
      [where base = "''src_asn''" and sub = "''name''" and t = "''x''"
         and fe = example_frontend and Sprintf = example_Sprintf
         and d = "\<lparr>Field = ''src_asn'', Dict = ''asns'', Expr = ''toUInt64(%s)'', Keys = []\<rparr>"]
    resolve_composite_field
      [where base = "''src_asn''" and sub = "[]" and t = "''x''"
         and fe = example_frontend and Sprintf = example_Sprintf
         and d = "\<lparr>Field = ''src_asn'', Dict = ''asns'', Expr = ''toUInt64(%s)'', Keys = []\<rparr>"]
  by (simp add: sublist_Cons_right example_frontend_def)

subsection \<open>Evaluating the query builder\<close>

lemma time_1000: "timeFieldToTimestamp ''2024-01-01T10:00'' = Inr 1704096000"
  by code_simp

lemma time_1100: "timeFieldToTimestamp ''2024-01-01T11:00'' = Inr 1704099600"
  by code_simp

lemma itoa_1000: "itoa 1704096000 = ''1704096000''"
  by (simp add: itoa_def digits.simps digit_def)

lemma itoa_1100: "itoa 1704099600 = ''1704099600''"
  by (simp add: itoa_def digits.simps digit_def)

lemmas eval_defs = fieldsToQuery_def exists_def get_def first_def selectFieldList_def
  conditions_def groupBy_def conditionFor_def HasPrefix_def resolveVirtualField_def
  resolveDictIfNecessary_def parseFieldName_def Split.simps example_frontend_def

subsection \<open>Validation\<close>

text \<open>
  C8: the query builder validates in this order. Without a breakdown list it fails with
  the error of the missing breakdown, whatever else the request holds; with a breakdown
  list and without a start time it fails with the error of the missing start time; with
  both and without an end time, with the error of the missing end time; with all three
  and a start time that does not parse, or a start time that parses and an end time that
  does not, with the wrapped error of the time parser. The four errors are different
  values, and each result is an error, so no statement is produced.
\<close>

theorem fieldsToQuery_validation_order:
  "(\<not> exists flds ''breakdown''
      \<longrightarrow> fieldsToQuery Sprintf fe flds = Inl (Errorf ''No breakdown set'' []))
   \<and> (exists flds ''breakdown'' \<and> \<not> exists flds ''time_start''
      \<longrightarrow> fieldsToQuery Sprintf fe flds = Inl (Errorf ''No start time given'' []))
   \<and> (exists flds ''breakdown'' \<and> exists flds ''time_start'' \<and> \<not> exists flds ''time_end''
      \<longrightarrow> fieldsToQuery Sprintf fe flds = Inl (Errorf ''No end time given'' []))
   \<and> (exists flds ''breakdown'' \<and> exists flds ''time_start'' \<and> exists flds ''time_end''
       \<and> get flds ''time_start'' = ts # tss \<and> timeFieldToTimestamp ts = Inl e
      \<longrightarrow> fieldsToQuery Sprintf fe flds = Inl (Wrap e ''Unable to parse time''))
   \<and> (exists flds ''breakdown'' \<and> exists flds ''time_start'' \<and> exists flds ''time_end''
       \<and> get flds ''time_start'' = ts # tss \<and> timeFieldToTimestamp ts = Inr start
       \<and> get flds ''time_end'' = te # tes \<and> timeFieldToTimestamp te = Inl e
      \<longrightarrow> fieldsToQuery Sprintf fe flds = Inl (Wrap e ''Unable to parse time''))
   \<and> Errorf ''No breakdown set'' [] \<noteq> Errorf ''No start time given'' []
   \<and> Errorf ''No breakdown set'' [] \<noteq> Errorf ''No end time given'' []
   \<and> Errorf ''No start time given'' [] \<noteq> Errorf ''No end time given'' []
   \<and> (\<forall>m. Wrap e ''Unable to parse time'' \<noteq> Errorf m [])"
  by (simp add: fieldsToQuery_def first_def)

theorem fieldsToQuery_validation_order_witness:
  "fieldsToQuery example_Sprintf example_frontend [(''time_start'', [''bogus''])]
     = Inl (Errorf ''No breakdown set'' [])
   \<and> fieldsToQuery example_Sprintf example_frontend [(''breakdown'', [''src_asn'']), (''time_end'', [''bogus''])]
     = Inl (Errorf ''No start time given'' [])
   \<and> fieldsToQuery example_Sprintf example_frontend [(''breakdown'', [''src_asn'']), (''time_start'', [''bogus''])]
     = Inl (Errorf ''No end time given'' [])
   \<and> fieldsToQuery example_Sprintf example_frontend
       [(''breakdown'', [''src_asn'']), (''time_start'', [''bogus'']), (''time_end'', [''bogus''])]
     = Inl (Wrap (Wrapf ParseError ''Unable to parse %q'' [''bogus:00+02:00''])
              ''Unable to parse time'')
   \<and> fieldsToQuery example_Sprintf example_frontend
       [(''breakdown'', [''src_asn'']), (''time_start'', [''2024-01-01T10:00'']),
        (''time_end'', [''bogus''])]
     = Inl (Wrap (Wrapf ParseError ''Unable to parse %q'' [''bogus:00+02:00''])
              ''Unable to parse time'')"
proof -
  have bogus: "timeFieldToTimestamp ''bogus''
                 = Inl (Wrapf ParseError ''Unable to parse %q'' [''bogus:00+02:00''])"
    by code_simp
  show ?thesis
    using
      fieldsToQuery_validation_order
        [where flds = "[(''time_start'', [''bogus''])]" and fe = example_frontend and Sprintf = example_Sprintf]
      fieldsToQuery_validation_order
        [where flds = "[(''breakdown'', [''src_asn'']), (''time_end'', [''bogus''])]"
           and fe = example_frontend and Sprintf = example_Sprintf]
      fieldsToQuery_validation_order
        [where flds = "[(''breakdown'', [''src_asn'']), (''time_start'', [''bogus''])]"
           and fe = example_frontend and Sprintf = example_Sprintf]
      fieldsToQuery_validation_order
        [where flds = "[(''breakdown'', [''src_asn'']), (''time_start'', [''bogus'']),
                        (''time_end'', [''bogus''])]"
           and fe = example_frontend and Sprintf = example_Sprintf and ts = "''bogus''" and tss = "[]"
           and e = "Wrapf ParseError ''Unable to parse %q'' [''bogus:00+02:00'']"]
      fieldsToQuery_validation_order
        [where flds = "[(''breakdown'', [''src_asn'']), (''time_start'', [''2024-01-01T10:00'']),
                        (''time_end'', [''bogus''])]"
           and fe = example_frontend and Sprintf = example_Sprintf and ts = "''2024-01-01T10:00''" and tss = "[]"
           and start = 1704096000 and te = "''bogus''" and tes = "[]"
           and e = "Wrapf ParseError ''Unable to parse %q'' [''bogus:00+02:00'']"]
    by (simp add: exists_def get_def bogus time_1000)
qed

subsection \<open>The query handler\<close>

lemma processQuery_empty: "URL_Query r = [] \<Longrightarrow> processQuery Sprintf fe scan r = Inr None"
  by (simp add: processQuery_def)

text \<open>
  C1, as the specification states it, fails: on a request without query parameters the
  handler answers 500, not 200.
\<close>

theorem QueryHandler_empty_query_counterexample:
  "QueryHandler example_Sprintf example_frontend (\<lambda>rows. Inr ()) (\<lambda>res. Inr ''t'')
       \<lparr>URL_Query = [], URL_Path = ''/query''\<rparr>
     = Response StatusInternalServerError (Bytes [])
   \<and> QueryHandler example_Sprintf example_frontend (\<lambda>rows. Inr ()) (\<lambda>res. Inr ''t'')
       \<lparr>URL_Query = [], URL_Path = ''/query''\<rparr>
     \<noteq> Response StatusOK (Bytes [])"
  by (simp add: QueryHandler_def processQuery_def)

text \<open>
  C1, amended: on every request without query parameters \<open>processQuery\<close> returns neither
  a result nor an error and builds no statement, and the handler answers the missing
  result with status 500 and no body.
\<close>

theorem QueryHandler_empty_query:
  "URL_Query r = [] \<Longrightarrow>
     processQuery Sprintf fe scan r = Inr None
     \<and> QueryHandler Sprintf fe scan csv r = Response StatusInternalServerError (Bytes [])"
  by (simp add: QueryHandler_def processQuery_def)

theorem QueryHandler_empty_query_witness:
  "processQuery example_Sprintf example_frontend (\<lambda>rows. Inr ()) \<lparr>URL_Query = [], URL_Path = ''/query''\<rparr>
     = (Inr None :: error + unit option)
   \<and> QueryHandler example_Sprintf example_frontend (\<lambda>rows. Inr ()) (\<lambda>res. Inr ''t'')
       \<lparr>URL_Query = [], URL_Path = ''/query''\<rparr>
     = Response StatusInternalServerError (Bytes [])"
  using QueryHandler_empty_query
    [where r = "\<lparr>URL_Query = [], URL_Path = ''/query''\<rparr>" and fe = example_frontend
       and Sprintf = example_Sprintf and scan = "\<lambda>rows. Inr ()" and csv = "\<lambda>res. Inr ''t''"]
  by simp

subsection \<open>Breakdown fields that do not resolve\<close>

text \<open>
  C2: the code does not do what the claim says. With the breakdown fields
  \<open>dst_asn__name\<close>, which has no dictionary binding, and \<open>dst_asn\<close>, the statement is
  produced without an error and the select list leaves \<open>dst_asn__name\<close> out, but the
  GROUP BY list still names it.
\<close>

theorem fieldsToQuery_unresolved_breakdown:
  "fieldsToQuery example_Sprintf example_frontend
     [(''breakdown'', [''dst_asn__name'', ''dst_asn'']),
      (''time_start'', [''2024-01-01T10:00'']),
      (''time_end'', [''2024-01-01T11:00''])]
   = Inr (''SELECT timestamp as t, dst_asn as dst_asn, sum(size * samplerate) * 8 / 10''
          @ '' FROM flows.flows WHERE t BETWEEN toDateTime(1704096000) AND toDateTime(1704099600)''
          @ '' GROUP BY t, dst_asn__name, dst_asn ORDER BY t'')"
  by (simp add: eval_defs time_1000 time_1100 itoa_1000 itoa_1100)

subsection \<open>Filter parameters\<close>

lemma set_conditionsLoop:
  "set (conditionsLoop Sprintf fe flds acc ks)
     = set acc \<union> {c. \<exists>k \<in> set ks. conditionFor Sprintf fe flds k = Some c}"
  by (induction ks arbitrary: acc) (auto split: option.splits)

lemma conditionFor_in_conditions:
  "k \<in> fst ` set flds \<Longrightarrow> conditionFor Sprintf fe flds k = Some c
     \<Longrightarrow> c \<in> set (conditions Sprintf fe flds start end)"
  by (auto simp: conditions_def set_conditionsLoop)

text \<open>
  A filter parameter that is not one of the two virtual fields and that resolves gets
  the equality predicate for one value and the membership predicate otherwise.
\<close>

lemma conditionFor_plain:
  assumes "k \<noteq> ''breakdown''" "k \<noteq> ''time_start''" "k \<noteq> ''time_end''"
    and "\<not> HasPrefix k ''filter_field''"
    and "k \<noteq> ''src_ip_pfx''" "k \<noteq> ''dst_ip_pfx''"
    and "resolveDictIfNecessary Sprintf fe k = Inr statement"
  shows "conditionFor Sprintf fe flds k =
           Some (if length (get flds k) = 1
                 then statement @ '' = '' @ [sq] @ get flds k ! 0 @ [sq]
                 else statement @ '' IN ('' @ Join (map (\<lambda>v. [sq] @ v @ [sq]) (get flds k)) '', ''
                        @ '')'')"
  using assms by (simp add: conditionFor_def resolveVirtualField_def Let_def)

text \<open>
  C4: the code does not do what the claim says for the two virtual fields. The filter
  parameter \<open>src_ip_pfx\<close> with the single value \<open>10.0.0.0/8\<close> resolves, and the WHERE
  clause holds the empty membership predicate for it, not the equality predicate.
\<close>

theorem fieldsToQuery_virtual_filter:
  "fieldsToQuery example_Sprintf example_frontend
     [(''breakdown'', [''src_asn'']),
      (''time_start'', [''2024-01-01T10:00'']),
      (''time_end'', [''2024-01-01T11:00'']),
      (''src_ip_pfx'', [''10.0.0.0/8''])]
   = Inr (''SELECT timestamp as t, src_asn as src_asn, sum(size * samplerate) * 8 / 10''
          @ '' FROM flows.flows WHERE t BETWEEN toDateTime(1704096000) AND toDateTime(1704099600)''
          @ '' AND concat(IPv6NumToString(src_ip_pfx_addr), '' @ [sq] @ ''/'' @ [sq]
          @ '', toString(src_ip_pfx_len)) IN () GROUP BY t, src_asn ORDER BY t'')"
  by (simp add: eval_defs time_1000 time_1100 itoa_1000 itoa_1100)

lemma resolve_virtual:
  "k = ''src_ip_pfx'' \<or> k = ''dst_ip_pfx'' \<Longrightarrow>
     resolveDictIfNecessary Sprintf fe (resolveVirtualField k) = Inr (resolveVirtualField k)"
  by (auto simp: resolveDictIfNecessary_def resolveVirtualField_def parseFieldName_plain
      sublist_Cons_right)

text \<open>
  What the loop does for a filter parameter named \<open>src_ip_pfx\<close> or \<open>dst_ip_pfx\<close>: the
  values are read under the resolved expression, not under the name of the parameter.
  When the request holds no parameter named by the resolved expression, the predicate
  is the empty membership predicate, whatever values the parameter carries.
\<close>

lemma conditionFor_virtual:
  "k = ''src_ip_pfx'' \<or> k = ''dst_ip_pfx'' \<Longrightarrow>
     conditionFor Sprintf fe flds k =
       Some (if length (get flds (resolveVirtualField k)) = 1
             then resolveVirtualField k @ '' = '' @ [sq]
                    @ get flds (resolveVirtualField k) ! 0 @ [sq]
             else resolveVirtualField k @ '' IN (''
                    @ Join (map (\<lambda>v. [sq] @ v @ [sq]) (get flds (resolveVirtualField k))) '', ''
                    @ '')'')
     \<and> (map_of flds (resolveVirtualField k) = None
          \<longrightarrow> conditionFor Sprintf fe flds k = Some (resolveVirtualField k @ '' IN ()'')
              \<and> (k \<in> fst ` set flds
                   \<longrightarrow> resolveVirtualField k @ '' IN ()''
                         \<in> set (conditions Sprintf fe flds start end)))"
proof -
  assume k: "k = ''src_ip_pfx'' \<or> k = ''dst_ip_pfx''"
  then have excl: "k \<noteq> ''breakdown''" "k \<noteq> ''time_start''" "k \<noteq> ''time_end''"
    "\<not> HasPrefix k ''filter_field''"
    by (auto simp: HasPrefix_def)
  have c: "conditionFor Sprintf fe flds k =
       Some (if length (get flds (resolveVirtualField k)) = 1
             then resolveVirtualField k @ '' = '' @ [sq]
                    @ get flds (resolveVirtualField k) ! 0 @ [sq]
             else resolveVirtualField k @ '' IN (''
                    @ Join (map (\<lambda>v. [sq] @ v @ [sq]) (get flds (resolveVirtualField k))) '', ''
                    @ '')'')"
    using excl resolve_virtual [OF k, where fe = fe and Sprintf = Sprintf]
    by (simp add: conditionFor_def Let_def)
  have e: "conditionFor Sprintf fe flds k = Some (resolveVirtualField k @ '' IN ()'')"
    if "map_of flds (resolveVirtualField k) = None"
    using c that by (simp add: get_def)
  show ?thesis
    using c e conditionFor_in_conditions by blast
qed

text \<open>
  C10: the code does not always generate the empty membership predicate for a virtual
  field. The lookup under the resolved expression instead of the name of the parameter
  is the slip of C4, and by the same slip a request that also holds a parameter named
  by the resolved expression gives the values of that other parameter to the predicate
  of \<open>src_ip_pfx\<close>: the statement holds the equality \<open><expr> = 'x'\<close> twice, once for
  each of the two parameters, and neither \<open><expr> IN ()\<close> nor the value
  \<open>10.0.0.0/8\<close> of \<open>src_ip_pfx\<close>.
\<close>

theorem fieldsToQuery_virtual_filter_other_parameter:
  "fieldsToQuery example_Sprintf example_frontend
     [(''breakdown'', [''src_asn'']),
      (''time_start'', [''2024-01-01T10:00'']),
      (''time_end'', [''2024-01-01T11:00'']),
      (''src_ip_pfx'', [''10.0.0.0/8'']),
      (''concat(IPv6NumToString(src_ip_pfx_addr), '' @ [sq] @ ''/'' @ [sq]
         @ '', toString(src_ip_pfx_len))'', [''x''])]
   = Inr (''SELECT timestamp as t, src_asn as src_asn, sum(size * samplerate) * 8 / 10''
          @ '' FROM flows.flows WHERE t BETWEEN toDateTime(1704096000) AND toDateTime(1704099600)''
          @ '' AND concat(IPv6NumToString(src_ip_pfx_addr), '' @ [sq] @ ''/'' @ [sq]
          @ '', toString(src_ip_pfx_len)) = '' @ [sq] @ ''x'' @ [sq]
          @ '' AND concat(IPv6NumToString(src_ip_pfx_addr), '' @ [sq] @ ''/'' @ [sq]
          @ '', toString(src_ip_pfx_len)) = '' @ [sq] @ ''x'' @ [sq]
          @ '' GROUP BY t, src_asn ORDER BY t'')"
  by (simp add: eval_defs time_1000 time_1100 itoa_1000 itoa_1100)

subsection \<open>The dictionary values\<close>

lemma getFieldsDictName_getDict:
  "getFieldsDictName fe f = (case getDict (dictCfgs fe) f of None \<Rightarrow> [] | Some d \<Rightarrow> Dict d)"
proof -
  have "getFieldsDictName_loop ds f = (case getDict ds f of None \<Rightarrow> [] | Some d \<Rightarrow> Dict d)"
    for ds
    by (induction ds) simp_all
  then show ?thesis by (simp add: getFieldsDictName_def)
qed

lemma parseDictValueRequest_two:
  "Split p ''__'' = [f, c] \<Longrightarrow> parseDictValueRequest p = Inr (f, c)"
  by (simp add: parseDictValueRequest_def)

lemma parseDictValueRequest_other:
  "length (Split p ''__'') \<noteq> 2 \<Longrightarrow> parseDictValueRequest p = Inl (Errorf ''Invalid format'' [])"
  by (simp add: parseDictValueRequest_def)

text \<open>
  C7, as the specification states it, fails: the handler removes the empty strings and
  sorts, but it keeps the duplicates of the values that the gateway returns.
\<close>

theorem GetDictValues_duplicates_counterexample:
  "GetDictValues example_frontend \<lparr>URL_Query = [], URL_Path = ''/dictvalues/src_asn__name''\<rparr>
     = Response StatusOK (JSONArray [''a'', ''a'', ''b''])
   \<and> \<not> distinct [''a'', ''a'', ''b'']"
  by (simp add: GetDictValues_def parseDictValueRequest_def getFieldsDictName_def
      json_Marshal_def Split.simps example_frontend_def)

text \<open>
  C7, amended: for a path of three pieces between slashes whose third piece is
  \<open>field__column\<close>, and a binding of the field that names a dictionary, the handler
  answers 200 with the JSON array of the values of the gateway with the empty strings
  removed, sorted ascending in the lexicographic order; duplicates are kept, so the
  array is free of duplicates whenever the values of the gateway are. A path of another
  shape and a field without a binding are answered with 400 and no body, a failure of
  the gateway with 500 and no body.
\<close>

theorem GetDictValues_response:
  "(Split (URL_Path r) ''/'' = [pa, pb, pc] \<and> Split pc ''__'' = [fieldName, column]
      \<and> getDict (dictCfgs fe) fieldName = Some d \<and> Dict d \<noteq> []
      \<and> chgw_GetDictValues (chgw fe) (Dict d) column = Inr vals
    \<longrightarrow> GetDictValues fe r
          = Response StatusOK (JSONArray (sort (filter (\<lambda>v. v \<noteq> []) vals)))
        \<and> sorted (sort (filter (\<lambda>v. v \<noteq> []) vals))
        \<and> set (sort (filter (\<lambda>v. v \<noteq> []) vals)) = set vals - {[]}
        \<and> length (sort (filter (\<lambda>v. v \<noteq> []) vals))
            = length (filter (\<lambda>v. v \<noteq> []) vals)
        \<and> (distinct vals \<longrightarrow> distinct (sort (filter (\<lambda>v. v \<noteq> []) vals))))
   \<and> (length (Split (URL_Path r) ''/'') \<noteq> 3
    \<longrightarrow> GetDictValues fe r = Response StatusBadRequest (Bytes []))
   \<and> (Split (URL_Path r) ''/'' = [pa, pb, pc] \<and> length (Split pc ''__'') \<noteq> 2
    \<longrightarrow> GetDictValues fe r = Response StatusBadRequest (Bytes []))
   \<and> (Split (URL_Path r) ''/'' = [pa, pb, pc] \<and> Split pc ''__'' = [fieldName, column]
      \<and> getDict (dictCfgs fe) fieldName = None
    \<longrightarrow> GetDictValues fe r = Response StatusBadRequest (Bytes []))
   \<and> (Split (URL_Path r) ''/'' = [pa, pb, pc] \<and> Split pc ''__'' = [fieldName, column]
      \<and> getDict (dictCfgs fe) fieldName = Some d \<and> Dict d \<noteq> []
      \<and> chgw_GetDictValues (chgw fe) (Dict d) column = Inl err
    \<longrightarrow> GetDictValues fe r = Response StatusInternalServerError (Bytes []))"
  by (auto simp: GetDictValues_def parseDictValueRequest_two parseDictValueRequest_other
      getFieldsDictName_getDict json_Marshal_def)

theorem GetDictValues_response_witness:
  "GetDictValues example_frontend \<lparr>URL_Query = [], URL_Path = ''/dictvalues/src_asn__country''\<rparr>
     = Response StatusOK (JSONArray [''at'', ''de''])
   \<and> GetDictValues example_frontend \<lparr>URL_Query = [], URL_Path = ''/dictvalues''\<rparr>
     = Response StatusBadRequest (Bytes [])
   \<and> GetDictValues example_frontend \<lparr>URL_Query = [], URL_Path = ''/dictvalues/src_asn''\<rparr>
     = Response StatusBadRequest (Bytes [])
   \<and> GetDictValues example_frontend \<lparr>URL_Query = [], URL_Path = ''/dictvalues/dst_asn__name''\<rparr>
     = Response StatusBadRequest (Bytes [])
   \<and> GetDictValues example_frontend \<lparr>URL_Query = [], URL_Path = ''/dictvalues/src_asn__size''\<rparr>
     = Response StatusInternalServerError (Bytes [])"
proof -
  have s: "sort [''de'', ''at''] = [''at'', ''de'']"
    by simp
  show ?thesis
    using
      GetDictValues_response
        [where r = "\<lparr>URL_Query = [], URL_Path = ''/dictvalues/src_asn__country''\<rparr>"
           and fe = example_frontend and pa = "[]" and pb = "''dictvalues''"
           and pc = "''src_asn__country''" and fieldName = "''src_asn''"
           and column = "''country''" and vals = "[''de'', [], ''at'']"
           and d = "\<lparr>Field = ''src_asn'', Dict = ''asns'', Expr = ''toUInt64(%s)'', Keys = []\<rparr>"]
      GetDictValues_response
        [where r = "\<lparr>URL_Query = [], URL_Path = ''/dictvalues''\<rparr>" and fe = example_frontend]
      GetDictValues_response
        [where r = "\<lparr>URL_Query = [], URL_Path = ''/dictvalues/src_asn''\<rparr>"
           and fe = example_frontend and pa = "[]" and pb = "''dictvalues''"
           and pc = "''src_asn''"]
      GetDictValues_response
        [where r = "\<lparr>URL_Query = [], URL_Path = ''/dictvalues/dst_asn__name''\<rparr>"
           and fe = example_frontend and pa = "[]" and pb = "''dictvalues''"
           and pc = "''dst_asn__name''" and fieldName = "''dst_asn''"
           and column = "''name''"]
      GetDictValues_response
        [where r = "\<lparr>URL_Query = [], URL_Path = ''/dictvalues/src_asn__size''\<rparr>"
           and fe = example_frontend and pa = "[]" and pb = "''dictvalues''"
           and pc = "''src_asn__size''" and fieldName = "''src_asn''"
           and column = "''size''" and err = "Errorf ''no column %s'' [''size'']"
           and d = "\<lparr>Field = ''src_asn'', Dict = ''asns'', Expr = ''toUInt64(%s)'', Keys = []\<rparr>"]
    by (simp add: Split.simps example_frontend_def s)
qed

subsection \<open>Time strings\<close>

lemma digit_range:
  assumes "n < 10"
  shows "CHR ''0'' \<le> digit n \<and> digit n \<le> CHR ''9'' \<and> digitVal (digit n) = n"
proof -
  have "list_all (\<lambda>k. CHR ''0'' \<le> digit k \<and> digit k \<le> CHR ''9'' \<and> digitVal (digit k) = k)
          [0..<10]"
    by code_simp
  with assms show ?thesis
    by (simp add: list_all_iff)
qed

lemma getnum_digits:
  "a < 10 \<Longrightarrow> b < 10 \<Longrightarrow> getnum (digit a # digit b # rest) fixed = Some (a * 10 + b, rest)"
  by (simp add: getnum_def isDigit_def digit_range)

lemma atoi_digits:
  "a < 10 \<Longrightarrow> b < 10 \<Longrightarrow> c < 10 \<Longrightarrow> d < 10 \<Longrightarrow>
     atoi [digit a, digit b, digit c, digit d] = Some (a * 1000 + b * 100 + c * 10 + d)"
  by (simp add: atoi_def digit_range)

lemma parseZone_plus_two: "parseZone (skipFraction ''+02:00'') = Some (7200, [])"
  by code_simp

lemma parseDate_digits:
  assumes "y1 < 10" "y2 < 10" "y3 < 10" "y4 < 10" "m1 < 10" "m2 < 10" "d1 < 10" "d2 < 10"
    and "1 \<le> m1 * 10 + m2" "m1 * 10 + m2 \<le> 12"
  shows "parseDate ([digit y1, digit y2, digit y3, digit y4, CHR ''-'', digit m1, digit m2,
                     CHR ''-'', digit d1, digit d2] @ rest)
           = Some ((y1 * 1000 + y2 * 100 + y3 * 10 + y4, m1 * 10 + m2, d1 * 10 + d2), rest)"
  using assms
  by (simp add: parseDate_def isDigit_def digit_range atoi_digits skip_def getnum_digits) arith

lemma parseClock_digits:
  assumes "h1 < 10" "h2 < 10" "n1 < 10" "n2 < 10"
    and "h1 * 10 + h2 < 24" "n1 * 10 + n2 < 60"
  shows "parseClock ([digit h1, digit h2, CHR '':'', digit n1, digit n2] @ '':00'' @ rest)
           = Some ((h1 * 10 + h2, n1 * 10 + n2, 0), rest)"
proof -
  have zero: "getnum (CHR ''0'' # CHR ''0'' # rest) True = Some (0, rest)"
    using getnum_digits [of 0 0 rest True] by (simp add: digit_def)
  show ?thesis
    using assms by (simp add: parseClock_def skip_def getnum_digits zero)
qed

lemma Parse_RFC3339_digits:
  assumes "y1 < 10" "y2 < 10" "y3 < 10" "y4 < 10" "m1 < 10" "m2 < 10" "d1 < 10" "d2 < 10"
    and "h1 < 10" "h2 < 10" "n1 < 10" "n2 < 10"
    and "1 \<le> m1 * 10 + m2" "m1 * 10 + m2 \<le> 12"
    and "1 \<le> d1 * 10 + d2"
    and "d1 * 10 + d2 \<le> daysIn (m1 * 10 + m2) (y1 * 1000 + y2 * 100 + y3 * 10 + y4)"
    and "h1 * 10 + h2 < 24" "n1 * 10 + n2 < 60"
  shows "Parse_RFC3339
           ([digit y1, digit y2, digit y3, digit y4, CHR ''-'', digit m1, digit m2,
             CHR ''-'', digit d1, digit d2, CHR ''T'', digit h1, digit h2, CHR '':'',
             digit n1, digit n2] @ '':00+02:00'')
         = Inr (Date (y1 * 1000 + y2 * 100 + y3 * 10 + y4) (m1 * 10 + m2) (d1 * 10 + d2)
                  (h1 * 10 + h2) (n1 * 10 + n2) 0 - 7200)"
proof -
  have date: "parseDate
           ([digit y1, digit y2, digit y3, digit y4, CHR ''-'', digit m1, digit m2,
             CHR ''-'', digit d1, digit d2, CHR ''T'', digit h1, digit h2, CHR '':'',
             digit n1, digit n2] @ '':00+02:00'')
         = Some ((y1 * 1000 + y2 * 100 + y3 * 10 + y4, m1 * 10 + m2, d1 * 10 + d2),
                 [CHR ''T'', digit h1, digit h2, CHR '':'', digit n1, digit n2] @ '':00+02:00'')"
    using parseDate_digits [OF assms(1-8) assms(13,14),
        of "[CHR ''T'', digit h1, digit h2, CHR '':'', digit n1, digit n2] @ '':00+02:00''"]
    by simp
  have clock: "parseClock ([digit h1, digit h2, CHR '':'', digit n1, digit n2] @ '':00+02:00'')
         = Some ((h1 * 10 + h2, n1 * 10 + n2, 0), ''+02:00'')"
    using parseClock_digits [OF assms(9-12) assms(17,18), of "''+02:00''"] by simp
  show ?thesis
    unfolding Parse_RFC3339_def parseLayout_def date
    using clock assms(15,16) by (simp add: skip_def parseZone_plus_two) arith
qed

lemma QueryHandler_build_error:
  "flds \<noteq> [] \<Longrightarrow> URL_Query r = flds \<Longrightarrow> fieldsToQuery Sprintf fe flds = Inl (Wrap e m) \<Longrightarrow>
     QueryHandler Sprintf fe scan csv r = Response StatusInternalServerError (Bytes [])"
  by (simp add: QueryHandler_def processQuery_def)

text \<open>
  C6: a time string of the form \<open>YYYY-MM-DDTHH:MM\<close>, each letter a decimal digit, with
  a month from 1 to 12, a day of that month, an hour below 24 and a minute below 60, is
  read as the wall clock time at the fixed offset \<open>+02:00\<close>: the result is the seconds
  from the epoch to that date and time taken as UTC, less 7200. For every string on
  which the parser fails, \<open>timeFieldToTimestamp\<close> returns the wrapped error, and a request
  that carries the string as its start time, or as its end time after a start time that
  parses, fails: the query builder returns an error and the handler answers 500.
\<close>

theorem timeFieldToTimestamp_wall_clock:
  "(y1 < 10 \<and> y2 < 10 \<and> y3 < 10 \<and> y4 < 10 \<and> m1 < 10 \<and> m2 < 10 \<and> d1 < 10 \<and> d2 < 10
      \<and> h1 < 10 \<and> h2 < 10 \<and> n1 < 10 \<and> n2 < 10
      \<and> 1 \<le> m1 * 10 + m2 \<and> m1 * 10 + m2 \<le> 12
      \<and> 1 \<le> d1 * 10 + d2
      \<and> d1 * 10 + d2 \<le> daysIn (m1 * 10 + m2) (y1 * 1000 + y2 * 100 + y3 * 10 + y4)
      \<and> h1 * 10 + h2 < 24 \<and> n1 * 10 + n2 < 60
    \<longrightarrow> timeFieldToTimestamp
          [digit y1, digit y2, digit y3, digit y4, CHR ''-'', digit m1, digit m2,
           CHR ''-'', digit d1, digit d2, CHR ''T'', digit h1, digit h2, CHR '':'',
           digit n1, digit n2]
        = Inr (Date (y1 * 1000 + y2 * 100 + y3 * 10 + y4) (m1 * 10 + m2) (d1 * 10 + d2)
                 (h1 * 10 + h2) (n1 * 10 + n2) 0 - 7200))
   \<and> (Parse_RFC3339 (v @ '':00+02:00'') = Inl e
    \<longrightarrow> timeFieldToTimestamp v = Inl (Wrapf e ''Unable to parse %q'' [v @ '':00+02:00''])
        \<and> (exists flds ''breakdown'' \<and> exists flds ''time_start'' \<and> exists flds ''time_end''
             \<and> URL_Query r = flds
             \<and> (get flds ''time_start'' = v # vs
                 \<or> (get flds ''time_start'' = ts # tss \<and> timeFieldToTimestamp ts = Inr start
                     \<and> get flds ''time_end'' = v # vs))
            \<longrightarrow> fieldsToQuery Sprintf fe flds
                  = Inl (Wrap (Wrapf e ''Unable to parse %q'' [v @ '':00+02:00''])
                           ''Unable to parse time'')
                \<and> QueryHandler Sprintf fe scan csv r = Response StatusInternalServerError (Bytes [])))"
proof (intro conjI impI)
  assume a: "y1 < 10 \<and> y2 < 10 \<and> y3 < 10 \<and> y4 < 10 \<and> m1 < 10 \<and> m2 < 10 \<and> d1 < 10 \<and> d2 < 10
      \<and> h1 < 10 \<and> h2 < 10 \<and> n1 < 10 \<and> n2 < 10
      \<and> 1 \<le> m1 * 10 + m2 \<and> m1 * 10 + m2 \<le> 12
      \<and> 1 \<le> d1 * 10 + d2
      \<and> d1 * 10 + d2 \<le> daysIn (m1 * 10 + m2) (y1 * 1000 + y2 * 100 + y3 * 10 + y4)
      \<and> h1 * 10 + h2 < 24 \<and> n1 * 10 + n2 < 60"
  then have "Parse_RFC3339
           ([digit y1, digit y2, digit y3, digit y4, CHR ''-'', digit m1, digit m2,
             CHR ''-'', digit d1, digit d2, CHR ''T'', digit h1, digit h2, CHR '':'',
             digit n1, digit n2] @ '':00+02:00'')
         = Inr (Date (y1 * 1000 + y2 * 100 + y3 * 10 + y4) (m1 * 10 + m2) (d1 * 10 + d2)
                  (h1 * 10 + h2) (n1 * 10 + n2) 0 - 7200)"
    by (intro Parse_RFC3339_digits) simp_all
  then show "timeFieldToTimestamp
          [digit y1, digit y2, digit y3, digit y4, CHR ''-'', digit m1, digit m2,
           CHR ''-'', digit d1, digit d2, CHR ''T'', digit h1, digit h2, CHR '':'',
           digit n1, digit n2]
        = Inr (Date (y1 * 1000 + y2 * 100 + y3 * 10 + y4) (m1 * 10 + m2) (d1 * 10 + d2)
                 (h1 * 10 + h2) (n1 * 10 + n2) 0 - 7200)"
    by (simp add: timeFieldToTimestamp_def)
next
  assume p: "Parse_RFC3339 (v @ '':00+02:00'') = Inl e"
  then show t: "timeFieldToTimestamp v = Inl (Wrapf e ''Unable to parse %q'' [v @ '':00+02:00''])"
    by (simp add: timeFieldToTimestamp_def)
  assume h: "exists flds ''breakdown'' \<and> exists flds ''time_start'' \<and> exists flds ''time_end''
             \<and> URL_Query r = flds
             \<and> (get flds ''time_start'' = v # vs
                 \<or> (get flds ''time_start'' = ts # tss \<and> timeFieldToTimestamp ts = Inr start
                     \<and> get flds ''time_end'' = v # vs))"
  with t show f: "fieldsToQuery Sprintf fe flds
                  = Inl (Wrap (Wrapf e ''Unable to parse %q'' [v @ '':00+02:00''])
                           ''Unable to parse time'')"
    by (auto simp: fieldsToQuery_def first_def)
  from h have "flds \<noteq> []" by (auto simp: exists_def)
  with h f show "QueryHandler Sprintf fe scan csv r = Response StatusInternalServerError (Bytes [])"
    using QueryHandler_build_error by blast
qed

theorem timeFieldToTimestamp_wall_clock_witness:
  "timeFieldToTimestamp ''2024-01-01T10:00'' = Inr 1704096000
   \<and> timeFieldToTimestamp ''bogus''
       = Inl (Wrapf ParseError ''Unable to parse %q'' [''bogus:00+02:00''])
   \<and> QueryHandler example_Sprintf example_frontend (\<lambda>rows. Inr ()) (\<lambda>res. Inr ''t'')
       \<lparr>URL_Query = [(''breakdown'', [''src_asn'']), (''time_start'', [''bogus'']),
                     (''time_end'', [''2024-01-01T11:00''])],
        URL_Path = ''/query''\<rparr>
       = Response StatusInternalServerError (Bytes [])"
proof -
  have bogus: "Parse_RFC3339 ''bogus:00+02:00'' = Inl ParseError"
    by code_simp
  have date: "Date 2024 (Suc 0) (Suc 0) 10 0 0 - 7200 = 1704096000"
    by code_simp
  have days: "daysIn (Suc 0) 2024 = 31"
    by (simp add: daysIn_def)
  show ?thesis
    using
      timeFieldToTimestamp_wall_clock
        [where ?y1.0 = 2 and ?y2.0 = 0 and ?y3.0 = 2 and ?y4.0 = 4 and ?m1.0 = 0 and ?m2.0 = 1
           and ?d1.0 = 0 and ?d2.0 = 1 and ?h1.0 = 1 and ?h2.0 = 0 and ?n1.0 = 0 and ?n2.0 = 0
           and v = "''bogus''" and e = ParseError
           and flds = "[(''breakdown'', [''src_asn'']), (''time_start'', [''bogus'']),
                        (''time_end'', [''2024-01-01T11:00''])]"
           and r = "\<lparr>URL_Query = [(''breakdown'', [''src_asn'']), (''time_start'', [''bogus'']),
                                    (''time_end'', [''2024-01-01T11:00''])],
                       URL_Path = ''/query''\<rparr>"
           and vs = "[]" and fe = example_frontend and Sprintf = example_Sprintf
           and scan = "\<lambda>rows. Inr ()" and csv = "\<lambda>res. Inr ''t''"]
    by (simp add: bogus date days digit_def exists_def get_def)
qed

end
